theory Spec2Isabelle
  imports Main "HOL-Library.Word"
begin

section \<open>Values, errors and panics\<close>

type_synonym bytes = "8 word list"
type_synonym address = "160 word"

text \<open>
  The decoded value tree of the ABI library: Go's \<^verbatim>\<open>any\<close> holding a bool, a
  \<^verbatim>\<open>*big.Int\<close>, a \<^verbatim>\<open>[]byte\<close>, a string, an address or a
  \<^verbatim>\<open>[]any\<close>.
\<close>

datatype val =
    VBool bool
  | VInt int
  | VBytes bytes
  | VString string
  | VAddress address
  | VList "val list"

text \<open>
  A Go \<^verbatim>\<open>error\<close>: its text (\<^verbatim>\<open>err.Error()\<close>) and the error it wraps
  (\<^verbatim>\<open>errors.Unwrap\<close>), if any.
\<close>

datatype error = Err string "error option"

fun error_text :: "error \<Rightarrow> string" where
  "error_text (Err s w) = s"

fun error_unwrap :: "error \<Rightarrow> error option" where
  "error_unwrap (Err s w) = w"

text \<open>The run-time panics of the dispatch code; each one aborts the process.\<close>

datatype panic = NilDereference | IndexOutOfRange | TypeAssertion

section \<open>The call set\<close>

text \<open>
  \<^verbatim>\<open>CallsInterface\<close> is declared outside the files at hand; the dispatch code uses
  its three methods only, which are the fields here. \<^verbatim>\<open>ToArray\<close> returns the tuple
  array, the value to send (a \<^verbatim>\<open>*big.Int\<close>) and an error; a nil
  \<^verbatim>\<open>[]string\<close> of return types is \<open>None\<close>.
\<close>

record CallsInterface =
  ToArray :: "bool \<Rightarrow> bool \<Rightarrow> val \<times> int option \<times> error option"
  Len :: nat
  GetReturnTypes :: "nat \<Rightarrow> string list option"

section \<open>The result reconciler\<close>

text \<open>
  The loop of \<^verbatim>\<open>makeCall\<close>:
  \<^verbatim>\<open>for len(decodedCallResult) != calls.Len() { decodedCallResult = decodedCallResult[0].([]any) }\<close>
  Indexing an empty slice and asserting \<^verbatim>\<open>[]any\<close> on another value panic.
\<close>

function makeCall_unwrap :: "nat \<Rightarrow> val list \<Rightarrow> panic + val list" where
  "makeCall_unwrap n decodedCallResult =
     (if length decodedCallResult \<noteq> n then
        (case decodedCallResult of
           [] \<Rightarrow> Inl IndexOutOfRange
         | first # _ \<Rightarrow>
             (case first of
                VList inner \<Rightarrow> makeCall_unwrap n inner
              | _ \<Rightarrow> Inl TypeAssertion))
      else Inr decodedCallResult)"
  by pat_completeness auto
termination
  by (relation "measure (\<lambda>(n, xs). size_list size xs)") auto

text \<open>
  \<^verbatim>\<open>abi.Decode\<close> belongs to an external package: it is a parameter of the
  per-call decode step.
\<close>

type_synonym abi_decode = "string list \<Rightarrow> bytes \<Rightarrow> error + val list"

text \<open>\<^verbatim>\<open>len\<close> of a possibly nil slice.\<close>

definition len_opt :: "'a list option \<Rightarrow> nat" where
  "len_opt xs = (case xs of None \<Rightarrow> 0 | Some ys \<Rightarrow> length ys)"

text \<open>
  The body of the loop of \<^verbatim>\<open>decodeAggregateCallsResult\<close> for index \<open>i\<close> and slot
  \<open>res\<close>: the value appended to \<^verbatim>\<open>decodedResult\<close>, the error returned, or the
  panic of a failed \<^verbatim>\<open>res.([]any)\<close>.
\<close>

definition decodeSlot ::
  "abi_decode \<Rightarrow> CallsInterface \<Rightarrow> nat \<Rightarrow> val \<Rightarrow> panic + (error + val)" where
  "decodeSlot Decode calls i res =
     (let returnTypes = GetReturnTypes calls i in
      if returnTypes \<noteq> None \<or> len_opt returnTypes > 0 then
        (case res of
           VBytes r \<Rightarrow>
             (case Decode (the returnTypes) r of
                Inl err \<Rightarrow> Inr (Inl err)
              | Inr decodedR \<Rightarrow> Inr (Inr (VList decodedR)))
         | VList l \<Rightarrow> Inr (Inr (VList l))
         | _ \<Rightarrow> Inl TypeAssertion)
      else
        (case res of
           VList l \<Rightarrow> Inr (Inr (VList l))
         | _ \<Rightarrow> Inl TypeAssertion))"

text \<open>
  The loop itself: \<open>i\<close> is the running index, \<open>decodedResult\<close> the slice built so far.
\<close>

fun decodeAggregateCallsResult_from ::
  "abi_decode \<Rightarrow> CallsInterface \<Rightarrow> nat \<Rightarrow> val list \<Rightarrow> val list \<Rightarrow> panic + (error + val list)" where
  "decodeAggregateCallsResult_from Decode calls i [] decodedResult = Inr (Inr decodedResult)"
| "decodeAggregateCallsResult_from Decode calls i (res # rest) decodedResult =
     (case decodeSlot Decode calls i res of
        Inl p \<Rightarrow> Inl p
      | Inr (Inl err) \<Rightarrow> Inr (Inl err)
      | Inr (Inr v) \<Rightarrow>
          decodeAggregateCallsResult_from Decode calls (Suc i) rest (decodedResult @ [v]))"

definition decodeAggregateCallsResult ::
  "abi_decode \<Rightarrow> val list \<Rightarrow> CallsInterface \<Rightarrow> panic + (error + val list)" where
  "decodeAggregateCallsResult Decode result calls =
     decodeAggregateCallsResult_from Decode calls 0 result []"

section \<open>Formatting helpers\<close>

text \<open>\<^verbatim>\<open>strings.Contains\<close>.\<close>

fun Contains :: "string \<Rightarrow> string \<Rightarrow> bool" where
  "Contains [] substr = (substr = [])"
| "Contains (c # s) substr =
     (take (length substr) (c # s) = substr \<or> Contains s substr)"

text \<open>\<^verbatim>\<open>common.Bytes2Hex\<close>: two lower-case hexadecimal digits a byte, no prefix.\<close>

definition hexdigit :: "nat \<Rightarrow> char" where
  "hexdigit n = ''0123456789abcdef'' ! (n mod 16)"

definition Bytes2Hex :: "bytes \<Rightarrow> string" where
  "Bytes2Hex d = concat (map (\<lambda>b. [hexdigit (unat b div 16), hexdigit (unat b mod 16)]) d)"

text \<open>
  \<^verbatim>\<open>fmt.Errorf(prefix + "%w" + suffix, err)\<close>: the new error wraps \<open>err\<close>; a nil
  operand is printed as \<^verbatim>\<open>%!w(<nil>)\<close> and nothing is wrapped.
\<close>

definition Errorf_w :: "string \<Rightarrow> error option \<Rightarrow> string \<Rightarrow> error" where
  "Errorf_w prefix err suffix =
     Err (prefix @ (case err of None \<Rightarrow> ''%!w(<nil>)'' | Some e \<Rightarrow> error_text e) @ suffix) err"

text \<open>\<^verbatim>\<open>fmt.Errorf(prefix + "%v", err)\<close> for a non-nil \<open>err\<close>: text only.\<close>

definition Errorf_v :: "string \<Rightarrow> error \<Rightarrow> error" where
  "Errorf_v prefix err = Err (prefix @ error_text err) None"

text \<open>\<^verbatim>\<open>big.NewInt(int64(n))\<close> for a \<^verbatim>\<open>uint64\<close>.\<close>

definition NewInt_int64 :: "64 word \<Rightarrow> int" where
  "NewInt_int64 n = sint n"

section \<open>Network records and results\<close>

record CallMsg =
  From :: address
  To :: "address option"
  Data :: bytes

datatype Transaction = Transaction nat

record Receipt =
  Receipt_Status :: "64 word"
  Receipt_BlockNumber :: "int option"

text \<open>
  \<^verbatim>\<open>TxOrCall\<close> and its two constructors \<^verbatim>\<open>FromCallToTxOrCall\<close> and
  \<^verbatim>\<open>FromTxToTxOrCall\<close> are declared outside the files at hand: a record is
  kept as the call that built it, \<open>TxOrCall_zero\<close> is the zero value
  \<^verbatim>\<open>TxOrCall{}\<close>.
\<close>

datatype TxOrCall =
    TxOrCall_zero
  | FromCallToTxOrCall CallMsg "int option"
  | FromTxToTxOrCall "Transaction option" address "int option"

text \<open>The \<^verbatim>\<open>any\<close> of \<^verbatim>\<open>Result.Result\<close>: nil, a \<^verbatim>\<open>[]any\<close> or a receipt.\<close>

datatype payload = PNil | PVals "val list" | PReceipt Receipt

record Result =
  Success :: bool
  Result :: payload
  Error :: "error option"
  TxOrCall :: TxOrCall

text \<open>\<^verbatim>\<open>Result{Success: false, Error: err}\<close> and the same with a network record.\<close>

definition failure :: "error option \<Rightarrow> Result" where
  "failure err = \<lparr>Success = False, Result = PNil, Error = err, TxOrCall = TxOrCall_zero\<rparr>"

definition failure_with :: "error option \<Rightarrow> TxOrCall \<Rightarrow> Result" where
  "failure_with err callOrTx = \<lparr>Success = False, Result = PNil, Error = err, TxOrCall = callOrTx\<rparr>"

definition parseResults :: "val list \<Rightarrow> bool \<Rightarrow> payload \<Rightarrow> TxOrCall \<Rightarrow> Result" where
  "parseResults decodedCallResult status callOrTxResult callOrTx =
     (if length decodedCallResult > 0 then
        \<lparr>Success = status, Result = PVals decodedCallResult, Error = None, TxOrCall = callOrTx\<rparr>
      else
        \<lparr>Success = status, Result = callOrTxResult, Error = None, TxOrCall = callOrTx\<rparr>)"

section \<open>Collaborators and their observed calls\<close>

text \<open>
  The calls of the collaborators that the dispatch makes, in order: every access to the
  network and every encoding of calldata with the arguments it was given.
\<close>

datatype event =
    EvEncodeWithSignature string "val list"
  | EvReadContract address "address option" bytes "int option"
  | EvCreateTransaction "address option" "address option" "int option" bytes
  | EvChainID
  | EvCallContract CallMsg
  | EvBlockNumber
  | EvSendSignedTransaction "Transaction option"
  | EvCodeAt address
  | EvDeployless string

text \<open>
  A computation of the dispatch code: the events it produced, and either the panic that
  aborted it or its return value.
\<close>

type_synonym 'a io = "event list \<times> (panic + 'a)"

definition io_return :: "'a \<Rightarrow> 'a io" where
  "io_return x = ([], Inr x)"

definition io_panic :: "panic \<Rightarrow> 'a io" where
  "io_panic p = ([], Inl p)"

definition io_event :: "event \<Rightarrow> unit io" where
  "io_event e = ([e], Inr ())"

definition io_bind :: "'a io \<Rightarrow> ('a \<Rightarrow> 'b io) \<Rightarrow> 'b io" where
  "io_bind m f =
     (case m of
        (t, Inl p) \<Rightarrow> (t, Inl p)
      | (t, Inr x) \<Rightarrow> (case f x of (t', r) \<Rightarrow> (t @ t', r)))"

text \<open>A pure step that may panic.\<close>

definition io_lift :: "panic + 'a \<Rightarrow> 'a io" where
  "io_lift r = ([], r)"

text \<open>Dereferencing a pointer: nil panics.\<close>

definition deref :: "'a option \<Rightarrow> 'a io" where
  "deref p = (case p of None \<Rightarrow> io_panic NilDereference | Some x \<Rightarrow> io_return x)"

text \<open>
  The chain transport. \<^verbatim>\<open>readContract\<close>, \<^verbatim>\<open>createTransaction\<close> and
  \<^verbatim>\<open>sendSignedTransaction\<close> are functions of the client declared outside the
  files at hand; the others are methods of \<^verbatim>\<open>ethclient.Client\<close>. A Go pair
  \<^verbatim>\<open>(x, err)\<close> whose \<open>x\<close> is read only when \<open>err\<close> is nil is a sum.
\<close>

record Client =
  readContract ::
    "address \<Rightarrow> address option \<Rightarrow> bytes \<Rightarrow> int option \<Rightarrow> bytes \<times> CallMsg \<times> error option"
  createTransaction ::
    "address option \<Rightarrow> address option \<Rightarrow> int option \<Rightarrow> bytes \<Rightarrow> Transaction option \<times> error option"
  sendSignedTransaction :: "Transaction option \<Rightarrow> Receipt option \<times> error option"
  ChainID :: "error + int"
  CallContract :: "CallMsg \<Rightarrow> error + bytes"
  BlockNumber :: "error + 64 word"
  CodeAt :: "address \<Rightarrow> error + bytes"

record SignerInterface =
  GetAddress :: "address option"
  SignTx :: "Transaction option \<Rightarrow> int \<Rightarrow> Transaction option \<times> error option"

text \<open>
  The package-level collaborators: the ABI package, the helpers
  \<^verbatim>\<open>parseRevertData\<close> and \<^verbatim>\<open>toAnyArray\<close>, the two address constants and the
  deployless functions, none of them defined in the files at hand.
\<close>

record env =
  EncodeWithSignature :: "string \<Rightarrow> val list \<Rightarrow> error + bytes"
  Decode :: abi_decode
  DecodeWithSignature :: "string \<Rightarrow> bytes \<Rightarrow> error + val list"
  parseRevertData :: "error \<Rightarrow> bytes \<times> bool"
  toAnyArray :: "address option list \<Rightarrow> val"
  ZERO_ADDRESS :: address
  OMNES_MULTICALL_ADDRESS :: address
  deploylessSimulation :: "CallsInterface \<Rightarrow> Client \<Rightarrow> int option \<Rightarrow> Result io"
  deploylessAggregateStatic :: "CallsInterface \<Rightarrow> Client \<Rightarrow> int option \<Rightarrow> Result io"
  deploylessTryAggregateStatic ::
    "CallsInterface \<Rightarrow> bool \<Rightarrow> Client \<Rightarrow> int option \<Rightarrow> Result io"
  deploylessTryAggregateStatic3 :: "CallsInterface \<Rightarrow> Client \<Rightarrow> int option \<Rightarrow> Result io"
  deploylessGetCodeLengths ::
    "address option list option \<Rightarrow> Client \<Rightarrow> int option \<Rightarrow> Result io"
  deploylessGetBalances ::
    "address option list option \<Rightarrow> Client \<Rightarrow> int option \<Rightarrow> Result io"
  deploylessGetAddressesData ::
    "address option list option \<Rightarrow> Client \<Rightarrow> int option \<Rightarrow> Result io"
  deploylessGetChainData :: "Client \<Rightarrow> int option \<Rightarrow> Result io"

section \<open>The read dispatch\<close>

text \<open>
  One iteration of the loop over the decoded simulation triples in \<^verbatim>\<open>makeCall\<close>:
  \<^verbatim>\<open>decodedCallResult[i].([]any)[1] = common.Bytes2Hex(result.([]any)[1].([]byte))\<close>
\<close>

definition hexifySlot :: "val \<Rightarrow> panic + val" where
  "hexifySlot result =
     (case result of
        VList triple \<Rightarrow>
          (if length triple \<le> 1 then Inl IndexOutOfRange
           else
             (case triple ! 1 of
                VBytes returnData \<Rightarrow> Inr (VList (triple[1 := VString (Bytes2Hex returnData)]))
              | _ \<Rightarrow> Inl TypeAssertion))
      | _ \<Rightarrow> Inl TypeAssertion)"

fun hexifyReturnData :: "val list \<Rightarrow> panic + val list" where
  "hexifyReturnData [] = Inr []"
| "hexifyReturnData (result # rest) =
     (case hexifySlot result of
        Inl p \<Rightarrow> Inl p
      | Inr v \<Rightarrow> (case hexifyReturnData rest of Inl p \<Rightarrow> Inl p | Inr vs \<Rightarrow> Inr (v # vs)))"

text \<open>
  The branch \<^verbatim>\<open>else if isSimulation\<close> of \<^verbatim>\<open>makeCall\<close>. \<^verbatim>\<open>err.Error()\<close> on
  a nil error panics. Inside \<^verbatim>\<open>if ok\<close> the statement
  \<^verbatim>\<open>decodedCallResult, err := abi.DecodeWithSignature(...)\<close> declares two new
  variables of that block, so the decoded and hexified triples live in the block's own
  \<^verbatim>\<open>decodedCallResult\<close> and are dropped at its end: the function's variable of that
  name is not assigned. The value is \<open>Some e\<close> when the branch returns the error \<open>e\<close>
  and \<open>None\<close> when control falls through.
\<close>

definition makeCall_simulation :: "env \<Rightarrow> error option \<Rightarrow> error option io" where
  "makeCall_simulation env err =
     (case err of
        None \<Rightarrow> io_panic NilDereference
      | Some e \<Rightarrow>
          (if Contains (error_text e) ''execution reverted'' then
             (case parseRevertData env e of
                (encodedRevert, ok) \<Rightarrow>
                  (if ok then
                     (case DecodeWithSignature env
                             ''MultiCall__Simulation((bool,bytes,uint256)[])'' encodedRevert of
                        Inl err_inner \<Rightarrow> io_return (Some err_inner)
                      | Inr decodedCallResult_inner \<Rightarrow>
                          (case decodedCallResult_inner of
                             [] \<Rightarrow> io_panic IndexOutOfRange
                           | first # _ \<Rightarrow>
                               (case first of
                                  VList triples \<Rightarrow>
                                    io_bind (io_lift (hexifyReturnData triples))
                                      (\<lambda>_. io_return None)
                                | _ \<Rightarrow> io_panic TypeAssertion)))
                   else io_return None))
           else io_return None))"

text \<open>
  \<^verbatim>\<open>if blockNumber == nil { ... client.BlockNumber ... }\<close>, as \<^verbatim>\<open>makeCall\<close> and
  \<^verbatim>\<open>getData\<close> have it.
\<close>

definition resolveBlockNumber :: "Client \<Rightarrow> int option \<Rightarrow> (error + int option) io" where
  "resolveBlockNumber client blockNumber =
     (case blockNumber of
        None \<Rightarrow>
          io_bind (io_event EvBlockNumber) (\<lambda>_.
            (case BlockNumber client of
               Inl err \<Rightarrow> io_return (Inl err)
             | Inr blockNumberUint64 \<Rightarrow> io_return (Inr (Some (NewInt_int64 blockNumberUint64)))))
      | Some b \<Rightarrow> io_return (Inr (Some b)))"

text \<open>
  \<^verbatim>\<open>makeCall\<close> returns \<^verbatim>\<open>(nil, nil, TxOrCall{}, err)\<close> or the unwrapped decoded
  value, the per-call list and the network record.
\<close>

definition makeCall ::
  "env \<Rightarrow> CallsInterface \<Rightarrow> Client \<Rightarrow> address option \<Rightarrow> bytes \<Rightarrow> string list \<Rightarrow> bool \<Rightarrow>
   address option \<Rightarrow> int option \<Rightarrow> (error + val list \<times> val list \<times> TxOrCall) io" where
  "makeCall env calls client to callData txReturnTypes isSimulation multicallAddress blockNumber =
     io_bind (io_event (EvReadContract (ZERO_ADDRESS env) to callData blockNumber)) (\<lambda>_.
     (case readContract client (ZERO_ADDRESS env) to callData blockNumber of
        (encodedCallResult, call, err) \<Rightarrow>
          (if err \<noteq> None \<and> \<not> isSimulation then io_return (Inl (the err))
           else
             io_bind (if isSimulation then makeCall_simulation env err else io_return None)
               (\<lambda>returned.
             (case returned of
                Some err_inner \<Rightarrow> io_return (Inl err_inner)
              | None \<Rightarrow>
                  (case (if \<not> isSimulation then Decode env txReturnTypes encodedCallResult
                         else Inr []) of
                     Inl err \<Rightarrow> io_return (Inl err)
                   | Inr decodedCallResult \<Rightarrow>
                       io_bind (io_lift (makeCall_unwrap (Len calls) decodedCallResult))
                         (\<lambda>decodedCallResult.
                       io_bind (io_lift (decodeAggregateCallsResult (Decode env)
                                           decodedCallResult calls))
                         (\<lambda>decoded.
                       (case decoded of
                          Inl err \<Rightarrow> io_return (Inl err)
                        | Inr decodedAggregatedCallsResultVar \<Rightarrow>
                            io_bind (resolveBlockNumber client blockNumber) (\<lambda>resolved.
                            (case resolved of
                               Inl err \<Rightarrow> io_return (Inl err)
                             | Inr blockNumber \<Rightarrow>
                                 io_return (Inr (decodedCallResult,
                                   decodedAggregatedCallsResultVar,
                                   FromCallToTxOrCall call blockNumber)))))))))))))"

text \<open>
  The encoding step of \<^verbatim>\<open>write\<close> and \<^verbatim>\<open>asRead\<close>, and that of \<^verbatim>\<open>read\<close>.
\<close>

definition encodeCalls ::
  "env \<Rightarrow> string \<Rightarrow> string \<Rightarrow> val \<Rightarrow> bool \<Rightarrow> (error + bytes) io" where
  "encodeCalls env withBool funcSignature arrayfiedCalls requireSuccess =
     (if funcSignature = withBool then
        io_bind (io_event (EvEncodeWithSignature funcSignature
                   [arrayfiedCalls, VBool requireSuccess])) (\<lambda>_.
        io_return (EncodeWithSignature env funcSignature [arrayfiedCalls, VBool requireSuccess]))
      else
        io_bind (io_event (EvEncodeWithSignature funcSignature [arrayfiedCalls])) (\<lambda>_.
        io_return (EncodeWithSignature env funcSignature [arrayfiedCalls])))"

definition asRead ::
  "env \<Rightarrow> CallsInterface \<Rightarrow> bool \<Rightarrow> Client \<Rightarrow> address option \<Rightarrow> string \<Rightarrow> string list \<Rightarrow>
   int option \<Rightarrow> Result io" where
  "asRead env calls requireSuccess client to funcSignature txReturnTypes blockNumber =
     (case ToArray calls True False of
        (arrayfiedCalls, _, err) \<Rightarrow>
          (if err \<noteq> None then io_return (failure err)
           else
             io_bind (encodeCalls env ''tryAggregateCalls((address,bytes,uint256)[],bool)''
                        funcSignature arrayfiedCalls requireSuccess) (\<lambda>encoded.
             (case encoded of
                Inl err \<Rightarrow> io_return (failure (Some err))
              | Inr callData \<Rightarrow>
                  io_bind (makeCall env calls client to callData txReturnTypes False None
                             blockNumber) (\<lambda>made.
                  (case made of
                     Inl err \<Rightarrow> io_return (failure_with (Some err) TxOrCall_zero)
                   | Inr (decodedCallResult, decodedAggregatedCallsResultVar, call) \<Rightarrow>
                       io_return (parseResults decodedAggregatedCallsResultVar True
                                    (PVals decodedCallResult) call)))))))"

definition txAsRead ::
  "env \<Rightarrow> CallsInterface \<Rightarrow> bool \<Rightarrow> Client \<Rightarrow> address option \<Rightarrow> string \<Rightarrow> string list \<Rightarrow>
   int option \<Rightarrow> Result io" where
  "txAsRead env calls requireSuccess client to funcSignature txReturnTypes blockNumber =
     asRead env calls requireSuccess client to funcSignature txReturnTypes blockNumber"

definition txAsReadWithFailure ::
  "env \<Rightarrow> CallsInterface \<Rightarrow> bool \<Rightarrow> Client \<Rightarrow> address option \<Rightarrow> string \<Rightarrow> string list \<Rightarrow>
   int option \<Rightarrow> Result io" where
  "txAsReadWithFailure env calls requireSuccess client to funcSignature txReturnTypes blockNumber =
     asRead env calls requireSuccess client to funcSignature txReturnTypes blockNumber"

definition read ::
  "env \<Rightarrow> CallsInterface \<Rightarrow> bool \<Rightarrow> Client \<Rightarrow> address option \<Rightarrow> string \<Rightarrow> string list \<Rightarrow>
   address option \<Rightarrow> int option \<Rightarrow> bool \<Rightarrow> Result io" where
  "read env calls requireSuccess client to funcSignature txReturnTypes multicallAddress
        blockNumber isSimulation =
     (case ToArray calls False False of
        (arrayfiedCalls, _, err) \<Rightarrow>
          (if err \<noteq> None then io_return (failure err)
           else
             (let isSimulation =
                    (if funcSignature = ''tryAggregateStatic((address,bytes,bool)[])'' then False
                     else isSimulation);
                  isSimulation =
                    (if funcSignature = ''tryAggregateStatic((address,bytes)[],bool)'' then False
                     else isSimulation)
              in
                io_bind (encodeCalls env ''tryAggregateStatic((address,bytes)[],bool)''
                           funcSignature arrayfiedCalls requireSuccess) (\<lambda>encoded.
                (case encoded of
                   Inl err \<Rightarrow> io_return (failure (Some err))
                 | Inr callData \<Rightarrow>
                     io_bind (makeCall env calls client to callData txReturnTypes isSimulation
                                multicallAddress blockNumber) (\<lambda>made.
                     (case made of
                        Inl err \<Rightarrow> io_return (failure_with (Some err) TxOrCall_zero)
                      | Inr (decodedCallResult, decodedAggregatedCallsResultVar, call) \<Rightarrow>
                          io_return (parseResults decodedAggregatedCallsResultVar True
                                       (PVals decodedCallResult) call))))))))"

definition getData ::
  "env \<Rightarrow> address option list option \<Rightarrow> Client \<Rightarrow> address option \<Rightarrow> string \<Rightarrow> string list \<Rightarrow>
   int option \<Rightarrow> Result io" where
  "getData env addresses client to funcSignature returnTypes blockNumber =
     (let args = (if addresses \<noteq> None then [toAnyArray env (the addresses)] else []) in
      io_bind (io_event (EvEncodeWithSignature funcSignature args)) (\<lambda>_.
      (case EncodeWithSignature env funcSignature args of
         Inl err \<Rightarrow> io_return (failure (Some err))
       | Inr callData \<Rightarrow>
           io_bind (io_event (EvReadContract (ZERO_ADDRESS env) to callData blockNumber)) (\<lambda>_.
           (case readContract client (ZERO_ADDRESS env) to callData blockNumber of
              (encodedCallResult, call, err) \<Rightarrow>
                (if err \<noteq> None then
                   io_return (failure_with err (FromCallToTxOrCall call blockNumber))
                 else
                   (case Decode env returnTypes encodedCallResult of
                      Inl err \<Rightarrow>
                        io_return (failure_with (Some err) (FromCallToTxOrCall call blockNumber))
                    | Inr decodedCallResult \<Rightarrow>
                        io_bind (resolveBlockNumber client blockNumber) (\<lambda>resolved.
                        (case resolved of
                           Inl err \<Rightarrow>
                             io_return (failure_with (Some err)
                                          (FromCallToTxOrCall call blockNumber))
                         | Inr blockNumber \<Rightarrow>
                             io_return \<lparr>Success = True, Result = PVals decodedCallResult,
                               Error = None,
                               TxOrCall = FromCallToTxOrCall call blockNumber\<rparr>)))))))))"

definition call ::
  "env \<Rightarrow> CallsInterface \<Rightarrow> bool \<Rightarrow> Client \<Rightarrow> address option \<Rightarrow> string \<Rightarrow> string list \<Rightarrow>
   address option \<Rightarrow> int option \<Rightarrow> bool \<Rightarrow> Result io" where
  "call env calls requireSuccess client to funcSignature txReturnTypes multicallAddress
        blockNumber isSimulation =
     read env calls requireSuccess client to funcSignature txReturnTypes multicallAddress
       blockNumber isSimulation"

definition callWithFailure ::
  "env \<Rightarrow> CallsInterface \<Rightarrow> Client \<Rightarrow> address option \<Rightarrow> string \<Rightarrow> string list \<Rightarrow>
   address option \<Rightarrow> int option \<Rightarrow> Result io" where
  "callWithFailure env calls client to funcSignature txReturnTypes multicallAddress blockNumber =
     read env calls False client to funcSignature txReturnTypes multicallAddress
       blockNumber False"

section \<open>The mutating dispatch\<close>

text \<open>
  In the branch of a failed dry run, \<^verbatim>\<open>blockNumber, err := client.BlockNumber(...)\<close>
  declares a new \<^verbatim>\<open>err\<close> for that block: the \<^verbatim>\<open>err\<close> formatted by
  \<^verbatim>\<open>fmt.Errorf("error calling contract: %w, with data: %s", err, ...)\<close> is this
  inner one, which is nil once the block number has been read.
\<close>

text \<open>\<^verbatim>\<open>write\<close> (primed here: the unprimed name is a keyword of the prover).\<close>

definition write' ::
  "env \<Rightarrow> CallsInterface \<Rightarrow> bool \<Rightarrow> Client \<Rightarrow> SignerInterface \<Rightarrow> address option \<Rightarrow>
   string \<Rightarrow> string list \<Rightarrow> bool \<Rightarrow> bool \<Rightarrow> Result io" where
  "write' env calls requireSuccess client signer to funcSignature txReturnTypes withValue
         isMultiCall3Type =
     (case ToArray calls withValue isMultiCall3Type of
        (arrayfiedCalls, msgValue, err) \<Rightarrow>
     (if err \<noteq> None then io_return (failure err)
      else
        io_bind (encodeCalls env ''tryAggregateCalls((address,bytes,uint256)[],bool)''
                   funcSignature arrayfiedCalls requireSuccess) (\<lambda>encoded.
     (case encoded of
        Inl err \<Rightarrow> io_return (failure (Some err))
      | Inr callData \<Rightarrow>
        io_bind (io_event (EvCreateTransaction (GetAddress signer) to msgValue callData)) (\<lambda>_.
     (case createTransaction client (GetAddress signer) to msgValue callData of
        (tx, err) \<Rightarrow>
     (if err \<noteq> None then
        io_bind (deref (GetAddress signer)) (\<lambda>sender.
        io_return (failure_with err (FromTxToTxOrCall tx sender None)))
      else
        io_bind (io_event EvChainID) (\<lambda>_.
     (case ChainID client of
        Inl err \<Rightarrow>
          io_bind (deref (GetAddress signer)) (\<lambda>sender.
          io_return (failure_with (Some err) (FromTxToTxOrCall tx sender None)))
      | Inr chainId \<Rightarrow>
     (case SignTx signer tx chainId of
        (signedTx, err) \<Rightarrow>
     (if err \<noteq> None then
        io_bind (deref (GetAddress signer)) (\<lambda>sender.
        io_return (failure_with err (FromTxToTxOrCall tx sender None)))
      else
        io_bind (deref (GetAddress signer)) (\<lambda>sender.
        io_bind (io_event (EvCallContract \<lparr>From = sender, To = to, Data = callData\<rparr>)) (\<lambda>_.
     (case CallContract client \<lparr>From = sender, To = to, Data = callData\<rparr> of
        Inl err \<Rightarrow>
          io_bind (io_event EvBlockNumber) (\<lambda>_.
          (case BlockNumber client of
             Inl err_inner \<Rightarrow>
               io_return (failure_with (Some err_inner) (FromTxToTxOrCall tx sender None))
           | Inr blockNumber \<Rightarrow>
               (let err_inner = None in
                io_return (failure_with
                  (Some (Errorf_w ''error calling contract: '' err_inner
                           ('', with data: '' @ Bytes2Hex callData)))
                  (FromTxToTxOrCall tx sender (Some (NewInt_int64 blockNumber)))))))
      | Inr encodedCallResult \<Rightarrow>
        io_bind (io_event (EvSendSignedTransaction signedTx)) (\<lambda>_.
     (case sendSignedTransaction client signedTx of
        (receipt, err) \<Rightarrow>
     (if err \<noteq> None then
        io_bind (deref receipt) (\<lambda>receipt.
        io_return (failure_with
          (Some (Errorf_w ''error sending signed transaction: '' err []))
          (FromTxToTxOrCall tx sender (Receipt_BlockNumber receipt))))
      else
        (case Decode env txReturnTypes encodedCallResult of
           Inl err \<Rightarrow>
             io_bind (deref receipt) (\<lambda>receipt.
             io_return (failure_with
               (Some (Errorf_w ''error decoding call result: '' (Some err) []))
               (FromTxToTxOrCall tx sender (Receipt_BlockNumber receipt))))
         | Inr decodedCallResult \<Rightarrow>
             io_bind (deref receipt) (\<lambda>receipt.
             io_return (parseResults decodedCallResult (Receipt_Status receipt = 1)
               (PReceipt receipt)
               (FromTxToTxOrCall signedTx sender (Receipt_BlockNumber receipt))))))))))))))))))))))"

definition transact ::
  "env \<Rightarrow> CallsInterface \<Rightarrow> bool \<Rightarrow> Client \<Rightarrow> SignerInterface \<Rightarrow> address option \<Rightarrow>
   string \<Rightarrow> string list \<Rightarrow> bool \<Rightarrow> bool \<Rightarrow> Result io" where
  "transact env calls requireSuccess client signer to funcSignature txReturnTypes withValue
            isMultiCall3Type =
     write' env calls requireSuccess client signer to funcSignature txReturnTypes withValue
       isMultiCall3Type"

definition transactWithFailure ::
  "env \<Rightarrow> CallsInterface \<Rightarrow> bool \<Rightarrow> Client \<Rightarrow> SignerInterface \<Rightarrow> address option \<Rightarrow>
   string \<Rightarrow> string list \<Rightarrow> bool \<Rightarrow> bool \<Rightarrow> Result io" where
  "transactWithFailure env calls requireSuccess client signer to funcSignature txReturnTypes
                       withValue isMultiCall3Type =
     write' env calls requireSuccess client signer to funcSignature txReturnTypes withValue
       isMultiCall3Type"

section \<open>The public entry points\<close>

record MultiCall =
  ContractAddress :: "address option"
  Signer :: "SignerInterface option"

definition NewMultiCall :: "env \<Rightarrow> Client \<Rightarrow> SignerInterface option \<Rightarrow> (error + MultiCall) io" where
  "NewMultiCall env client signer =
     io_bind (io_event (EvCodeAt (OMNES_MULTICALL_ADDRESS env))) (\<lambda>_.
     (case CodeAt client (OMNES_MULTICALL_ADDRESS env) of
        Inl err \<Rightarrow> io_return (Inl (Errorf_v ''error getting bytecode: '' err))
      | Inr bytecode \<Rightarrow>
          (let multicallAddress =
                 (if length bytecode = 0 then None else Some (OMNES_MULTICALL_ADDRESS env))
           in io_return (Inr \<lparr>ContractAddress = multicallAddress, Signer = signer\<rparr>))))"

definition AggregateCalls ::
  "env \<Rightarrow> MultiCall \<Rightarrow> CallsInterface \<Rightarrow> Client \<Rightarrow> int option \<Rightarrow> bool \<Rightarrow> Result io" where
  "AggregateCalls env m calls client blockNumber isCall =
     (if Signer m = None \<and> \<not> isCall then
        io_return (failure (Some (Err ''no signer configured'' None)))
      else if ContractAddress m = None then
        io_return (failure (Some (Err ''no multicall contract on this chain'' None)))
      else if isCall then
        txAsRead env calls False client (ContractAddress m)
          ''aggregateCalls((address,bytes,uint256)[])'' [''bytes[]''] blockNumber
      else
        io_bind (deref (Signer m)) (\<lambda>signer.
        transact env calls False client signer (ContractAddress m)
          ''aggregateCalls((address,bytes,uint256)[])'' [''bytes[]''] True False))"

definition TryAggregateCalls ::
  "env \<Rightarrow> MultiCall \<Rightarrow> CallsInterface \<Rightarrow> bool \<Rightarrow> Client \<Rightarrow> int option \<Rightarrow> bool \<Rightarrow> Result io" where
  "TryAggregateCalls env m calls requireSuccess client blockNumber isCall =
     (if Signer m = None \<and> \<not> isCall then
        io_return (failure (Some (Err ''no signer configured'' None)))
      else if ContractAddress m = None then
        io_return (failure (Some (Err ''no multicall contract on this chain'' None)))
      else if isCall then
        txAsRead env calls requireSuccess client (ContractAddress m)
          ''tryAggregateCalls((address,bytes,uint256)[],bool)'' [''(bool,bytes)[]''] blockNumber
      else
        io_bind (deref (Signer m)) (\<lambda>signer.
        transact env calls requireSuccess client signer (ContractAddress m)
          ''tryAggregateCalls((address,bytes,uint256)[],bool)'' [''(bool,bytes)[]''] True False))"

definition TryAggregateCalls3 ::
  "env \<Rightarrow> MultiCall \<Rightarrow> CallsInterface \<Rightarrow> Client \<Rightarrow> int option \<Rightarrow> bool \<Rightarrow> Result io" where
  "TryAggregateCalls3 env m calls client blockNumber isCall =
     (if Signer m = None \<and> \<not> isCall then
        io_return (failure (Some (Err ''no signer configured'' None)))
      else if ContractAddress m = None then
        io_return (failure (Some (Err ''no multicall contract on this chain'' None)))
      else if isCall then
        txAsReadWithFailure env calls False client (ContractAddress m)
          ''tryAggregateCalls((address,bytes,uint256,bool)[])'' [''(bool,bytes)[]''] blockNumber
      else
        io_bind (deref (Signer m)) (\<lambda>signer.
        transactWithFailure env calls False client signer (ContractAddress m)
          ''tryAggregateCalls((address,bytes,uint256,bool)[])'' [''(bool,bytes)[]''] True False))"

definition SimulateCall ::
  "env \<Rightarrow> MultiCall \<Rightarrow> CallsInterface \<Rightarrow> Client \<Rightarrow> int option \<Rightarrow> Result io" where
  "SimulateCall env m calls client blockNumber =
     (if ContractAddress m = None then deploylessSimulation env calls client blockNumber
      else
        call env calls False client (ContractAddress m) ''simulateCalls((address,bytes)[])'' []
          (ContractAddress m) blockNumber True)"

definition AggregateStatic ::
  "env \<Rightarrow> MultiCall \<Rightarrow> CallsInterface \<Rightarrow> Client \<Rightarrow> int option \<Rightarrow> Result io" where
  "AggregateStatic env m calls client blockNumber =
     (if ContractAddress m = None then deploylessAggregateStatic env calls client blockNumber
      else
        call env calls False client (ContractAddress m) ''aggregateStatic((address,bytes)[])''
          [''bytes[]''] (ContractAddress m) blockNumber False)"

definition TryAggregateStatic ::
  "env \<Rightarrow> MultiCall \<Rightarrow> CallsInterface \<Rightarrow> bool \<Rightarrow> Client \<Rightarrow> int option \<Rightarrow> Result io" where
  "TryAggregateStatic env m calls requireSuccess client blockNumber =
     (if ContractAddress m = None then
        deploylessTryAggregateStatic env calls requireSuccess client blockNumber
      else
        call env calls requireSuccess client (ContractAddress m)
          ''tryAggregateStatic((address,bytes)[],bool)'' [''(bool,bytes)[]'']
          (ContractAddress m) blockNumber False)"

definition TryAggregateStatic3 ::
  "env \<Rightarrow> MultiCall \<Rightarrow> CallsInterface \<Rightarrow> Client \<Rightarrow> int option \<Rightarrow> Result io" where
  "TryAggregateStatic3 env m calls client blockNumber =
     (if ContractAddress m = None then deploylessTryAggregateStatic3 env calls client blockNumber
      else
        callWithFailure env calls client (ContractAddress m)
          ''tryAggregateStatic((address,bytes,bool)[])'' [''(bool,bytes)[]'']
          (ContractAddress m) blockNumber)"

definition CodeLengths ::
  "env \<Rightarrow> MultiCall \<Rightarrow> address option list option \<Rightarrow> Client \<Rightarrow> int option \<Rightarrow> Result io" where
  "CodeLengths env m addresses client blockNumber =
     (if ContractAddress m = None then deploylessGetCodeLengths env addresses client blockNumber
      else
        getData env addresses client (ContractAddress m) ''getCodeLengths(address[])''
          [''uint256[]''] blockNumber)"

definition Balances ::
  "env \<Rightarrow> MultiCall \<Rightarrow> address option list option \<Rightarrow> Client \<Rightarrow> int option \<Rightarrow> Result io" where
  "Balances env m addresses client blockNumber =
     (if ContractAddress m = None then deploylessGetBalances env addresses client blockNumber
      else
        getData env addresses client (ContractAddress m) ''getBalances(address[])''
          [''uint256[]''] blockNumber)"

definition AddressesData ::
  "env \<Rightarrow> MultiCall \<Rightarrow> address option list option \<Rightarrow> Client \<Rightarrow> int option \<Rightarrow> Result io" where
  "AddressesData env m addresses client blockNumber =
     (if ContractAddress m = None then
        deploylessGetAddressesData env addresses client blockNumber
      else
        getData env addresses client (ContractAddress m) ''getAddressesData(address[])''
          [''uint256[]'', ''uint256[]''] blockNumber)"

definition ChainData :: "env \<Rightarrow> MultiCall \<Rightarrow> Client \<Rightarrow> int option \<Rightarrow> Result io" where
  "ChainData env m client blockNumber =
     (if ContractAddress m = None then deploylessGetChainData env client blockNumber
      else
        getData env None client (ContractAddress m) ''getChainData()''
          [''uint256'', ''uint256'', ''bytes32'', ''uint256'', ''address'', ''uint256'',
           ''uint256'', ''uint256'', ''uint256''] blockNumber)"

definition IsDeployed :: "MultiCall \<Rightarrow> bool" where
  "IsDeployed m = (ContractAddress m \<noteq> None)"

definition IsDeployless :: "MultiCall \<Rightarrow> bool" where
  "IsDeployless m = (ContractAddress m = None)"

text \<open>
  A request names one of the eleven dispatching methods of \<^verbatim>\<open>MultiCall\<close> with its
  arguments; \<open>invoke\<close> calls the method.
\<close>

datatype request =
    ReqAggregateCalls CallsInterface "int option" bool
  | ReqTryAggregateCalls CallsInterface bool "int option" bool
  | ReqTryAggregateCalls3 CallsInterface "int option" bool
  | ReqSimulateCall CallsInterface "int option"
  | ReqAggregateStatic CallsInterface "int option"
  | ReqTryAggregateStatic CallsInterface bool "int option"
  | ReqTryAggregateStatic3 CallsInterface "int option"
  | ReqCodeLengths "address option list option" "int option"
  | ReqBalances "address option list option" "int option"
  | ReqAddressesData "address option list option" "int option"
  | ReqChainData "int option"

fun invoke :: "env \<Rightarrow> MultiCall \<Rightarrow> Client \<Rightarrow> request \<Rightarrow> Result io" where
  "invoke env m client (ReqAggregateCalls calls blockNumber isCall) =
     AggregateCalls env m calls client blockNumber isCall"
| "invoke env m client (ReqTryAggregateCalls calls requireSuccess blockNumber isCall) =
     TryAggregateCalls env m calls requireSuccess client blockNumber isCall"
| "invoke env m client (ReqTryAggregateCalls3 calls blockNumber isCall) =
     TryAggregateCalls3 env m calls client blockNumber isCall"
| "invoke env m client (ReqSimulateCall calls blockNumber) =
     SimulateCall env m calls client blockNumber"
| "invoke env m client (ReqAggregateStatic calls blockNumber) =
     AggregateStatic env m calls client blockNumber"
| "invoke env m client (ReqTryAggregateStatic calls requireSuccess blockNumber) =
     TryAggregateStatic env m calls requireSuccess client blockNumber"
| "invoke env m client (ReqTryAggregateStatic3 calls blockNumber) =
     TryAggregateStatic3 env m calls client blockNumber"
| "invoke env m client (ReqCodeLengths addresses blockNumber) =
     CodeLengths env m addresses client blockNumber"
| "invoke env m client (ReqBalances addresses blockNumber) =
     Balances env m addresses client blockNumber"
| "invoke env m client (ReqAddressesData addresses blockNumber) =
     AddressesData env m addresses client blockNumber"
| "invoke env m client (ReqChainData blockNumber) =
     ChainData env m client blockNumber"

section \<open>Shapes and sample data used in the statements\<close>

text \<open>
  A per-call list inside \<open>k\<close> single-element lists: the shape of a decoded outer value
  whose schema nests the per-call array.
\<close>

fun wrapped :: "nat \<Rightarrow> val list \<Rightarrow> val list" where
  "wrapped 0 ys = ys"
| "wrapped (Suc k) ys = [VList (wrapped k ys)]"

text \<open>
  The chain of values that the count-matching loop of \<^verbatim>\<open>makeCall\<close> can reach, as
  the specification words it: the decoded value, then its first element, then the first
  element of that, for as long as the first element is a list.
\<close>

function levels :: "val list \<Rightarrow> val list list" where
  "levels xs =
     xs # (case xs of
             [] \<Rightarrow> []
           | first # _ \<Rightarrow> (case first of VList inner \<Rightarrow> levels inner | _ \<Rightarrow> []))"
  by pat_completeness auto
termination
  by (relation "measure (size_list size)") auto

text \<open>
  A decoder for the samples, sensitive to the types it is given: under the schema
  \<^verbatim>\<open>bytes[]\<close> every byte of the response is one byte-string slot, under
  \<^verbatim>\<open>uint256\<close> the bytes decode to their number as an integer, under
  \<^verbatim>\<open>address\<close> to their number as an address, under \<^verbatim>\<open>uint256[]\<close> every byte
  is one integer; any other schema is an error.
\<close>

definition sample_Decode :: abi_decode where
  "sample_Decode types d =
     (if types = [''bytes[]''] then Inr [VList (map (\<lambda>b. VBytes [b]) d)]
      else if types = [''uint256''] then Inr [VInt (int (length d))]
      else if types = [''address''] then Inr [VAddress (of_nat (length d))]
      else if types = [''uint256[]''] then Inr [VList (map (\<lambda>b. VInt (uint b)) d)]
      else Inl (Err ''abi: unsupported type'' None))"

text \<open>A call set of two calls that declare return types, and the empty call set.\<close>

definition sample_calls :: CallsInterface where
  "sample_calls =
     \<lparr>ToArray = (\<lambda>withValue isMultiCall3Type. (VList [VList [], VList []], Some 0, None)),
      Len = 2,
      GetReturnTypes = (\<lambda>i. if i = 0 then Some [''uint256''] else Some [''address''])\<rparr>"

definition empty_calls :: CallsInterface where
  "empty_calls =
     \<lparr>ToArray = (\<lambda>withValue isMultiCall3Type. (VList [], None, None)),
      Len = 0,
      GetReturnTypes = (\<lambda>i. None)\<rparr>"

text \<open>A deployless collaborator of the samples leaves its name in the trace.\<close>

definition deployless_stub :: "string \<Rightarrow> Result io" where
  "deployless_stub name =
     ([EvDeployless name],
      Inr \<lparr>Success = True, Result = PVals [], Error = None, TxOrCall = TxOrCall_zero\<rparr>)"

definition sample_env :: env where
  "sample_env =
     \<lparr>EncodeWithSignature = (\<lambda>funcSignature args. Inr [10]),
      Decode = sample_Decode,
      DecodeWithSignature = (\<lambda>funcSignature d.
        Inr [VList [VList [VBool True, VBytes [], VInt 33921],
                    VList [VBool True, VBytes [], VInt 9521]]]),
      parseRevertData = (\<lambda>err. ([7], True)),
      toAnyArray = (\<lambda>addresses.
        VList (map (\<lambda>a. case a of None \<Rightarrow> VAddress 0 | Some x \<Rightarrow> VAddress x) addresses)),
      ZERO_ADDRESS = 0,
      OMNES_MULTICALL_ADDRESS = 51729,
      deploylessSimulation = (\<lambda>calls client blockNumber. deployless_stub ''deploylessSimulation''),
      deploylessAggregateStatic =
        (\<lambda>calls client blockNumber. deployless_stub ''deploylessAggregateStatic''),
      deploylessTryAggregateStatic =
        (\<lambda>calls requireSuccess client blockNumber. deployless_stub ''deploylessTryAggregateStatic''),
      deploylessTryAggregateStatic3 =
        (\<lambda>calls client blockNumber. deployless_stub ''deploylessTryAggregateStatic3''),
      deploylessGetCodeLengths =
        (\<lambda>addresses client blockNumber. deployless_stub ''deploylessGetCodeLengths''),
      deploylessGetBalances =
        (\<lambda>addresses client blockNumber. deployless_stub ''deploylessGetBalances''),
      deploylessGetAddressesData =
        (\<lambda>addresses client blockNumber. deployless_stub ''deploylessGetAddressesData''),
      deploylessGetChainData = (\<lambda>client blockNumber. deployless_stub ''deploylessGetChainData'')\<rparr>"

text \<open>
  A chain whose batching contract answers every call with the two bytes \<open>01 02\<close>, at
  block 100, and mines every transaction with status 1 in block 101.
\<close>

definition sample_client :: Client where
  "sample_client =
     \<lparr>readContract = (\<lambda>sender to callData blockNumber.
        ([1, 2], \<lparr>From = sender, To = to, Data = callData\<rparr>, None)),
      createTransaction = (\<lambda>sender to msgValue callData. (Some (Transaction 0), None)),
      sendSignedTransaction = (\<lambda>signedTx.
        (Some \<lparr>Receipt_Status = 1, Receipt_BlockNumber = Some 101\<rparr>, None)),
      ChainID = Inr 1,
      CallContract = (\<lambda>msg. Inr [1, 2]),
      BlockNumber = Inr 100,
      CodeAt = (\<lambda>account. Inr [96])\<rparr>"

text \<open>The same chain answering an empty batch with no bytes.\<close>

definition empty_client :: Client where
  "empty_client =
     sample_client\<lparr>readContract := (\<lambda>sender to callData blockNumber.
        ([], \<lparr>From = sender, To = to, Data = callData\<rparr>, None))\<rparr>"

text \<open>The same chain with every stateless call reverting, as \<^verbatim>\<open>simulateCalls\<close> does.\<close>

definition revert_client :: Client where
  "revert_client =
     sample_client\<lparr>readContract := (\<lambda>sender to callData blockNumber.
        ([], \<lparr>From = sender, To = to, Data = callData\<rparr>, Some (Err ''execution reverted'' None)))\<rparr>"

text \<open>A transport that cannot reach the chain.\<close>

definition refused_client :: Client where
  "refused_client =
     sample_client\<lparr>readContract := (\<lambda>sender to callData blockNumber.
        ([], \<lparr>From = sender, To = to, Data = callData\<rparr>, Some (Err ''connection refused'' None)))\<rparr>"

text \<open>The sample chain with a dry run that reverts.\<close>

definition dry_run_failing_client :: Client where
  "dry_run_failing_client =
     sample_client\<lparr>CallContract := (\<lambda>msg. Inl (Err ''execution reverted'' None))\<rparr>"

definition sample_signer :: SignerInterface where
  "sample_signer =
     \<lparr>GetAddress = Some 2748,
      SignTx = (\<lambda>tx chainId. (Some (Transaction 1), None))\<rparr>"

definition sample_m :: MultiCall where
  "sample_m = \<lparr>ContractAddress = Some 51729, Signer = Some sample_signer\<rparr>"

definition deployless_m :: MultiCall where
  "deployless_m = \<lparr>ContractAddress = None, Signer = Some sample_signer\<rparr>"

text \<open>One request for each of the eleven dispatching methods.\<close>

definition sample_requests :: "request list" where
  "sample_requests =
     [ReqAggregateCalls sample_calls None False,
      ReqTryAggregateCalls sample_calls False None False,
      ReqTryAggregateCalls3 sample_calls None False,
      ReqSimulateCall sample_calls None,
      ReqAggregateStatic sample_calls None,
      ReqTryAggregateStatic sample_calls False None,
      ReqTryAggregateStatic3 sample_calls None,
      ReqCodeLengths (Some [Some 1, Some 1]) None,
      ReqBalances (Some [Some 1, Some 1]) None,
      ReqAddressesData (Some [Some 1, Some 1]) None,
      ReqChainData None]"

text \<open>The sample chain mining every transaction with status 0.\<close>

definition failed_tx_client :: Client where
  "failed_tx_client =
     sample_client\<lparr>sendSignedTransaction := (\<lambda>signedTx.
        (Some \<lparr>Receipt_Status = 0, Receipt_BlockNumber = Some 101\<rparr>, None))\<rparr>"

text \<open>The deployed contract without a signer.\<close>

definition unsigned_m :: MultiCall where
  "unsigned_m = \<lparr>ContractAddress = Some 51729, Signer = None\<rparr>"

text \<open>A call set of two calls that declare no return types.\<close>

definition untyped_calls :: CallsInterface where
  "untyped_calls =
     \<lparr>ToArray = (\<lambda>withValue isMultiCall3Type. (VList [VList [], VList []], Some 0, None)),
      Len = 2,
      GetReturnTypes = (\<lambda>i. None)\<rparr>"

section \<open>Observations on a trace\<close>

fun is_encode :: "event \<Rightarrow> bool" where
  "is_encode (EvEncodeWithSignature funcSignature args) = True"
| "is_encode _ = False"

fun is_broadcast :: "event \<Rightarrow> bool" where
  "is_broadcast (EvSendSignedTransaction signedTx) = True"
| "is_broadcast _ = False"

fun is_deployless :: "event \<Rightarrow> bool" where
  "is_deployless (EvDeployless name) = True"
| "is_deployless _ = False"

text \<open>Whether a request ends in a deployless collaborator.\<close>

definition uses_deployless :: "env \<Rightarrow> MultiCall \<Rightarrow> Client \<Rightarrow> request \<Rightarrow> bool" where
  "uses_deployless env m client req = list_ex is_deployless (fst (invoke env m client req))"

text \<open>A computation none of whose events satisfies \<open>P\<close>.\<close>

definition silent :: "(event \<Rightarrow> bool) \<Rightarrow> 'a io \<Rightarrow> bool" where
  "silent P m = (filter P (fst m) = [])"

text \<open>The trace of an event followed by a computation.\<close>

definition io_cons :: "event \<Rightarrow> 'a io \<Rightarrow> 'a io" where
  "io_cons e m = (e # fst m, snd m)"

section \<open>Properties of the reconciler\<close>

declare makeCall_unwrap.simps [simp del]
declare levels.simps [simp del]

lemma makeCall_unwrap_Inr_length:
  "makeCall_unwrap n xs = Inr zs \<Longrightarrow> length zs = n"
proof (induction n xs rule: makeCall_unwrap.induct)
  case (1 n xs)
  show ?case
  proof (cases "length xs = n")
    case True
    with "1.prems" show ?thesis by (simp add: makeCall_unwrap.simps [of n xs])
  next
    case False
    with "1.prems" obtain inner rest where xs: "xs = VList inner # rest"
      and rec: "makeCall_unwrap n inner = Inr zs"
      by (auto simp: makeCall_unwrap.simps [of n xs] split: list.splits val.splits)
    from "1.IH" [OF False xs refl] rec show ?thesis by simp
  qed
qed

lemma makeCall_unwrap_wrapped:
  "length ys = n \<Longrightarrow>
   \<exists>zs. makeCall_unwrap n (wrapped k ys) = Inr zs \<and> length zs = n \<and> (n \<noteq> 1 \<longrightarrow> zs = ys)"
proof (induction k)
  case 0
  then show ?case by (simp add: makeCall_unwrap.simps)
next
  case (Suc k)
  show ?case
  proof (cases "n = 1")
    case True
    then show ?thesis by (simp add: makeCall_unwrap.simps)
  next
    case False
    with Suc show ?thesis by (simp add: makeCall_unwrap.simps [of n "[VList (wrapped k ys)]"])
  qed
qed

lemma levels_not_Nil: "levels xs \<noteq> []"
  by (subst levels.simps) simp

lemma levels_Nil: "levels [] = [[]]"
  by (subst levels.simps) simp

lemma levels_VList: "levels (VList inner # rest) = (VList inner # rest) # levels inner"
  by (subst levels.simps) simp

lemma levels_other: "\<forall>inner. x \<noteq> VList inner \<Longrightarrow> levels (x # rest) = [x # rest]"
  by (subst levels.simps) (cases x; simp)

lemma makeCall_unwrap_levels:
  "makeCall_unwrap n xs =
     (case find (\<lambda>l. length l = n) (levels xs) of
        Some l \<Rightarrow> Inr l
      | None \<Rightarrow> Inl (if last (levels xs) = [] then IndexOutOfRange else TypeAssertion))"
proof (induction n xs rule: makeCall_unwrap.induct)
  case (1 n xs)
  show ?case
  proof (cases "length xs = n")
    case True
    then show ?thesis
      by (subst levels.simps, subst makeCall_unwrap.simps) simp
  next
    case False
    show ?thesis
    proof (cases xs)
      case Nil
      with False show ?thesis by (simp add: levels_Nil makeCall_unwrap.simps [of n "[]"])
    next
      case (Cons x rest)
      show ?thesis
      proof (cases "\<exists>inner. x = VList inner")
        case True
        then obtain inner where x: "x = VList inner" by blast
        from "1.IH" [OF False Cons x] False Cons x show ?thesis
          by (simp add: levels_VList levels_not_Nil makeCall_unwrap.simps [of n "VList inner # rest"])
      next
        case no: False
        then have "levels (x # rest) = [x # rest]" by (simp add: levels_other)
        with False Cons no show ?thesis
          by (cases x) (simp_all add: makeCall_unwrap.simps)
      qed
    qed
  qed
qed

lemma last_levels:
  "last (levels xs) = [] \<or> (\<exists>x rest. last (levels xs) = x # rest \<and> (\<forall>inner. x \<noteq> VList inner))"
proof (induction xs rule: levels.induct)
  case (1 xs)
  show ?case
  proof (cases xs)
    case Nil
    then show ?thesis by (simp add: levels_Nil)
  next
    case (Cons x rest)
    show ?thesis
    proof (cases "\<exists>inner. x = VList inner")
      case True
      then obtain inner where x: "x = VList inner" by blast
      from "1.IH" [OF Cons x] Cons x show ?thesis
        by (simp add: levels_VList levels_not_Nil)
    next
      case False
      then show ?thesis using Cons by (simp add: levels_other)
    qed
  qed
qed

lemma find_None_length: "find (\<lambda>l. length l = n) ls = None \<Longrightarrow> \<forall>l\<in>set ls. length l \<noteq> n"
  by (simp add: find_None_iff)

lemma makeCall_unwrap_Inl:
  assumes "makeCall_unwrap n xs = Inl p"
  shows "(\<forall>l\<in>set (levels xs). length l \<noteq> n) \<and>
         (p = IndexOutOfRange \<and> last (levels xs) = [] \<or>
          p = TypeAssertion \<and> (\<exists>x rest. last (levels xs) = x # rest \<and> (\<forall>inner. x \<noteq> VList inner)))"
proof -
  from assms have none: "find (\<lambda>l. length l = n) (levels xs) = None"
    and p: "p = (if last (levels xs) = [] then IndexOutOfRange else TypeAssertion)"
    unfolding makeCall_unwrap_levels [of n xs] by (auto split: option.splits)
  from none have "\<forall>l\<in>set (levels xs). length l \<noteq> n" by (rule find_None_length)
  moreover from p last_levels [of xs]
  have "p = IndexOutOfRange \<and> last (levels xs) = [] \<or>
        p = TypeAssertion \<and> (\<exists>x rest. last (levels xs) = x # rest \<and> (\<forall>inner. x \<noteq> VList inner))"
    by auto
  ultimately show ?thesis by blast
qed

text \<open>
  C1, amended: the count-matching loop always terminates (it is a total function), and
  its outcome is fixed by the chain \<open>levels\<close> of the decoded value: it yields the
  first value of the chain whose element count is \<open>C.Len()\<close>; when no value of the chain
  has that count it panics, with an index out of range when the chain ends in an empty
  list and with a failed \<^verbatim>\<open>[]any\<close> assertion when it ends in a list whose first
  element is not a list. Hence a list of \<open>C.Len()\<close> elements inside any number of
  single-element lists gives a list of length \<open>C.Len()\<close> (that very list when
  \<open>C.Len()\<close> is not 1), every list the loop yields has length \<open>C.Len()\<close>, and every
  panic is one of the two named, each with its trigger.
\<close>

theorem makeCall_unwrap_length:
  "makeCall_unwrap n xs =
     (case find (\<lambda>l. length l = n) (levels xs) of
        Some l \<Rightarrow> Inr l
      | None \<Rightarrow> Inl (if last (levels xs) = [] then IndexOutOfRange else TypeAssertion))
   \<and> (length ys = n \<longrightarrow>
        (\<exists>zs. makeCall_unwrap n (wrapped k ys) = Inr zs \<and> length zs = n \<and> (n \<noteq> 1 \<longrightarrow> zs = ys)))
   \<and> (\<forall>zs. makeCall_unwrap n xs = Inr zs \<longrightarrow> length zs = n)
   \<and> (\<forall>p. makeCall_unwrap n xs = Inl p \<longrightarrow>
        (\<forall>l\<in>set (levels xs). length l \<noteq> n) \<and>
        (p = IndexOutOfRange \<and> last (levels xs) = [] \<or>
         p = TypeAssertion \<and>
           (\<exists>x rest. last (levels xs) = x # rest \<and> (\<forall>inner. x \<noteq> VList inner))))"
  using makeCall_unwrap_levels [of n xs] makeCall_unwrap_wrapped [of ys n k]
    makeCall_unwrap_Inr_length [of n xs] makeCall_unwrap_Inl [of n xs]
  by blast

theorem makeCall_unwrap_length_witness:
  "makeCall_unwrap 2 [VList [VInt 5, VInt 7], VBool True, VBool False] = Inr [VInt 5, VInt 7]
   \<and> levels [VList [VInt 5, VInt 7], VBool True, VBool False]
       = [[VList [VInt 5, VInt 7], VBool True, VBool False], [VInt 5, VInt 7]]
   \<and> length [VBytes [1], VBytes [2]] = 2
   \<and> makeCall_unwrap 2 (wrapped 2 [VBytes [1], VBytes [2]]) = Inr [VBytes [1], VBytes [2]]
   \<and> makeCall_unwrap 3 [VList [], VBool True] = Inl IndexOutOfRange
   \<and> last (levels [VList [], VBool True]) = []
   \<and> makeCall_unwrap 2 [VList [VInt 1], VList [VInt 8, VInt 9], VBool True] = Inl TypeAssertion
   \<and> last (levels [VList [VInt 1], VList [VInt 8, VInt 9], VBool True]) = [VInt 1]"
  using makeCall_unwrap_length [of 2 "[VList [VInt 5, VInt 7], VBool True, VBool False]"
          "[VBytes [1], VBytes [2]]" 2]
    makeCall_unwrap_length [of 3 "[VList [], VBool True]" "[]" 0]
    makeCall_unwrap_length [of 2 "[VList [VInt 1], VList [VInt 8, VInt 9], VBool True]" "[]" 0]
  by (simp add: numeral_2_eq_2 levels_VList levels_other levels_Nil makeCall_unwrap.simps)

text \<open>
  C1, as stated, fails: on the decoded value of a \<^verbatim>\<open>bytes[]\<close> schema that holds
  two byte strings and a call set of three calls, the count-matching loop descends once
  and then asserts \<^verbatim>\<open>[]any\<close> on a byte string, which aborts the process; no list
  is produced.
\<close>

theorem makeCall_unwrap_counterexample:
  "makeCall_unwrap 3 [VList [VBytes [1], VBytes [2]]] = Inl TypeAssertion"
  by (simp add: makeCall_unwrap.simps)

section \<open>Laws of the trace computations\<close>

lemma io_bind_return [simp]: "io_bind (io_return x) f = f x"
  by (simp add: io_bind_def io_return_def split: prod.splits)

lemma io_bind_panic [simp]: "io_bind (io_panic p) f = io_panic p"
  by (simp add: io_bind_def io_panic_def)

lemma io_bind_event [simp]: "io_bind (io_event e) f = io_cons e (f ())"
  by (simp add: io_bind_def io_event_def io_cons_def split: prod.splits)

lemma io_bind_lift [simp]:
  "io_bind (io_lift r) f = (case r of Inl p \<Rightarrow> io_panic p | Inr x \<Rightarrow> f x)"
  by (simp add: io_bind_def io_lift_def io_panic_def split: prod.splits sum.splits)

lemma io_bind_deref [simp]:
  "io_bind (deref q) f = (case q of None \<Rightarrow> io_panic NilDereference | Some x \<Rightarrow> f x)"
  by (simp add: deref_def split: option.splits)

lemma io_bind_cons [simp]: "io_bind (io_cons e m) f = io_cons e (io_bind m f)"
  by (simp add: io_bind_def io_cons_def split: prod.splits sum.splits)

lemma snd_io_cons [simp]: "snd (io_cons e m) = snd m"
  by (simp add: io_cons_def)

lemma fst_io_cons [simp]: "fst (io_cons e m) = e # fst m"
  by (simp add: io_cons_def)

lemma snd_io_return [simp]: "snd (io_return x) = Inr x"
  by (simp add: io_return_def)

lemma fst_io_return [simp]: "fst (io_return x) = []"
  by (simp add: io_return_def)

lemma snd_io_panic [simp]: "snd (io_panic p) = Inl p"
  by (simp add: io_panic_def)

lemma fst_io_panic [simp]: "fst (io_panic p) = []"
  by (simp add: io_panic_def)

lemma snd_io_bind:
  "snd (io_bind m f) = (case snd m of Inl p \<Rightarrow> Inl p | Inr x \<Rightarrow> snd (f x))"
  by (simp add: io_bind_def split: prod.splits sum.splits)

lemma fst_io_bind:
  "fst (io_bind m f) = fst m @ (case snd m of Inl p \<Rightarrow> [] | Inr x \<Rightarrow> fst (f x))"
  by (simp add: io_bind_def split: prod.splits sum.splits)

section \<open>Per-call decode and call order\<close>












lemmas sample_defs =
  sample_env_def sample_client_def sample_calls_def sample_Decode_def sample_signer_def
  sample_m_def empty_calls_def empty_client_def revert_client_def refused_client_def
  dry_run_failing_client_def deployless_m_def deployless_stub_def failed_tx_client_def
  unsigned_m_def untyped_calls_def

lemmas dispatch_defs =
  asRead_def read_def getData_def write'_def makeCall_def makeCall_simulation_def
  encodeCalls_def resolveBlockNumber_def decodeAggregateCallsResult_def decodeSlot_def
  parseResults_def failure_def failure_with_def len_opt_def NewInt_int64_def
  txAsRead_def txAsReadWithFailure_def call_def callWithFailure_def transact_def
  transactWithFailure_def Errorf_w_def Errorf_v_def hexifySlot_def



section \<open>Success flag and error field\<close>

lemma getData_success_iff:
  "snd (getData env addresses client to funcSignature types bn) = Inr r \<Longrightarrow>
   Success r \<longleftrightarrow> Error r = None"
  unfolding getData_def Let_def
  by (auto simp: failure_def failure_with_def snd_io_bind resolveBlockNumber_def
           split: sum.splits prod.splits if_splits option.splits)

lemma asRead_success_iff:
  "snd (asRead env calls rs client to funcSignature types bn) = Inr r \<Longrightarrow>
   Success r \<longleftrightarrow> Error r = None"
  unfolding asRead_def encodeCalls_def
  by (auto simp: failure_def failure_with_def snd_io_bind parseResults_def
           split: sum.splits prod.splits if_splits)

lemma read_success_iff:
  "snd (read env calls rs client to funcSignature types ma bn sim) = Inr r \<Longrightarrow>
   Success r \<longleftrightarrow> Error r = None"
  unfolding read_def encodeCalls_def Let_def
  by (auto simp: failure_def failure_with_def snd_io_bind parseResults_def
           split: sum.splits prod.splits if_splits)

lemma write_Inr:
  assumes "snd (write' env calls rs client signer to funcSignature types wv mc3) = Inr r"
    and "Error r = None"
  shows "\<exists>sender cd enc stx rc raw.
           GetAddress signer = Some sender \<and>
           CallContract client \<lparr>From = sender, To = to, Data = cd\<rparr> = Inr enc \<and>
           sendSignedTransaction client stx = (Some rc, None) \<and>
           Decode env types enc = Inr raw \<and>
           Success r = (Receipt_Status rc = 1) \<and>
           Result r = (if raw \<noteq> [] then PVals raw else PReceipt rc)"
  using assms unfolding write'_def encodeCalls_def Let_def
  apply (auto simp: failure_def failure_with_def snd_io_bind parseResults_def
           split: sum.splits prod.splits if_splits option.splits)
     apply blast+
  done


text \<open>
  C10: every Result returned by \<^verbatim>\<open>asRead\<close>, \<^verbatim>\<open>read\<close> or \<^verbatim>\<open>getData\<close>
  has its success flag set exactly when its error field is nil. On the mutating path a
  Result with a false flag and a nil error comes from a mined receipt whose status is
  not 1 (the code tests \<^verbatim>\<open>receipt.Status == 1\<close>).
\<close>

theorem success_iff_no_error_on_reads:
  "(snd (asRead env calls requireSuccess client to funcSignature types bn) = Inr r1 \<longrightarrow>
      (Success r1 \<longleftrightarrow> Error r1 = None))
   \<and> (snd (read env calls requireSuccess client to funcSignature types ma bn sim) = Inr r2 \<longrightarrow>
      (Success r2 \<longleftrightarrow> Error r2 = None))
   \<and> (snd (getData env addresses client to funcSignature types bn) = Inr r3 \<longrightarrow>
      (Success r3 \<longleftrightarrow> Error r3 = None))
   \<and> (snd (write' env calls requireSuccess client signer to funcSignature types withValue
              isMultiCall3Type) = Inr r4 \<and> \<not> Success r4 \<and> Error r4 = None \<longrightarrow>
      (\<exists>signedTx receipt. sendSignedTransaction client signedTx = (Some receipt, None) \<and>
         Receipt_Status receipt \<noteq> 1))"
  using asRead_success_iff [of env calls requireSuccess client to funcSignature types bn r1]
    read_success_iff [of env calls requireSuccess client to funcSignature types ma bn sim r2]
    getData_success_iff [of env addresses client to funcSignature types bn r3]
    write_Inr [of env calls requireSuccess client signer to funcSignature types withValue
                 isMultiCall3Type r4]
  by blast

theorem success_iff_no_error_on_reads_witness:
  "snd (asRead sample_env sample_calls False sample_client (Some 51729)
          ''aggregateCalls((address,bytes,uint256)[])'' [''bytes[]''] None)
     = Inr \<lparr>Success = True, Result = PVals [VList [VInt 1], VList [VAddress 1]], Error = None,
             TxOrCall = FromCallToTxOrCall \<lparr>From = 0, To = Some 51729, Data = [10]\<rparr>
                          (Some 100)\<rparr>
   \<and> snd (read sample_env sample_calls False refused_client (Some 51729)
          ''aggregateStatic((address,bytes)[])'' [''bytes[]''] (Some 51729) None False)
     = Inr \<lparr>Success = False, Result = PNil, Error = Some (Err ''connection refused'' None),
             TxOrCall = TxOrCall_zero\<rparr>
   \<and> snd (getData sample_env (Some [Some 1, Some 1]) sample_client (Some 51729)
          ''getBalances(address[])'' [''uint256[]''] None)
     = Inr \<lparr>Success = True, Result = PVals [VList [VInt 1, VInt 2]], Error = None,
             TxOrCall = FromCallToTxOrCall \<lparr>From = 0, To = Some 51729, Data = [10]\<rparr>
                          (Some 100)\<rparr>
   \<and> snd (write' sample_env sample_calls False failed_tx_client sample_signer (Some 51729)
          ''aggregateCalls((address,bytes,uint256)[])'' [''bytes[]''] True False)
     = Inr \<lparr>Success = False, Result = PVals [VList [VBytes [1], VBytes [2]]], Error = None,
             TxOrCall = FromTxToTxOrCall (Some (Transaction 1)) 2748 (Some 101)\<rparr>
   \<and> sendSignedTransaction failed_tx_client (Some (Transaction 1))
     = (Some \<lparr>Receipt_Status = 0, Receipt_BlockNumber = Some 101\<rparr>, None)"
proof -
  have e1: "snd (asRead sample_env sample_calls False sample_client (Some 51729)
          ''aggregateCalls((address,bytes,uint256)[])'' [''bytes[]''] None)
     = Inr \<lparr>Success = True, Result = PVals [VList [VInt 1], VList [VAddress 1]], Error = None,
             TxOrCall = FromCallToTxOrCall \<lparr>From = 0, To = Some 51729, Data = [10]\<rparr>
                          (Some 100)\<rparr>"
    by (simp add: sample_defs dispatch_defs makeCall_unwrap.simps)
  have e2: "snd (read sample_env sample_calls False refused_client (Some 51729)
          ''aggregateStatic((address,bytes)[])'' [''bytes[]''] (Some 51729) None False)
     = Inr \<lparr>Success = False, Result = PNil, Error = Some (Err ''connection refused'' None),
             TxOrCall = TxOrCall_zero\<rparr>"
    by (simp add: sample_defs dispatch_defs makeCall_unwrap.simps)
  have e3: "snd (getData sample_env (Some [Some 1, Some 1]) sample_client (Some 51729)
          ''getBalances(address[])'' [''uint256[]''] None)
     = Inr \<lparr>Success = True, Result = PVals [VList [VInt 1, VInt 2]], Error = None,
             TxOrCall = FromCallToTxOrCall \<lparr>From = 0, To = Some 51729, Data = [10]\<rparr>
                          (Some 100)\<rparr>"
    by (simp add: sample_defs dispatch_defs)
  have e4: "snd (write' sample_env sample_calls False failed_tx_client sample_signer (Some 51729)
          ''aggregateCalls((address,bytes,uint256)[])'' [''bytes[]''] True False)
     = Inr \<lparr>Success = False, Result = PVals [VList [VBytes [1], VBytes [2]]], Error = None,
             TxOrCall = FromTxToTxOrCall (Some (Transaction 1)) 2748 (Some 101)\<rparr>"
    by (simp add: sample_defs dispatch_defs)
  have e5: "sendSignedTransaction failed_tx_client (Some (Transaction 1))
     = (Some \<lparr>Receipt_Status = 0, Receipt_BlockNumber = Some 101\<rparr>, None)"
    by (simp add: sample_defs)
  show ?thesis
    using e1 e2 e3 e4 e5
      success_iff_no_error_on_reads [where env = sample_env and calls = sample_calls
        and requireSuccess = False and client = sample_client and to = "Some 51729"
        and funcSignature = "''aggregateCalls((address,bytes,uint256)[])''"
        and types = "[''bytes[]'']" and bn = None
        and ?r1.0 = "\<lparr>Success = True, Result = PVals [VList [VInt 1], VList [VAddress 1]],
             Error = None,
             TxOrCall = FromCallToTxOrCall \<lparr>From = 0, To = Some 51729, Data = [10]\<rparr>
                          (Some 100)\<rparr>"]
      success_iff_no_error_on_reads [where env = sample_env and calls = sample_calls
        and requireSuccess = False and client = refused_client and to = "Some 51729"
        and funcSignature = "''aggregateStatic((address,bytes)[])''"
        and types = "[''bytes[]'']" and bn = None and ma = "Some 51729" and sim = False
        and ?r2.0 = "\<lparr>Success = False, Result = PNil,
             Error = Some (Err ''connection refused'' None), TxOrCall = TxOrCall_zero\<rparr>"]
      success_iff_no_error_on_reads [where env = sample_env
        and addresses = "Some [Some 1, Some 1]" and client = sample_client
        and to = "Some 51729" and funcSignature = "''getBalances(address[])''"
        and types = "[''uint256[]'']" and bn = None
        and ?r3.0 = "\<lparr>Success = True, Result = PVals [VList [VInt 1, VInt 2]], Error = None,
             TxOrCall = FromCallToTxOrCall \<lparr>From = 0, To = Some 51729, Data = [10]\<rparr>
                          (Some 100)\<rparr>"]
      success_iff_no_error_on_reads [where env = sample_env and calls = sample_calls
        and requireSuccess = False and client = failed_tx_client and signer = sample_signer
        and to = "Some 51729"
        and funcSignature = "''aggregateCalls((address,bytes,uint256)[])''"
        and types = "[''bytes[]'']" and withValue = True and isMultiCall3Type = False
        and ?r4.0 = "\<lparr>Success = False, Result = PVals [VList [VBytes [1], VBytes [2]]],
             Error = None,
             TxOrCall = FromTxToTxOrCall (Some (Transaction 1)) 2748 (Some 101)\<rparr>"]
    by simp
qed

end
